theory Spec2Isabelle
  imports Complex_Main
begin

section \<open>Data model of the portal pulse effect\<close>

text \<open>
  The effect of \<^verbatim>\<open>src/main.js\<close> is a table of shader uniforms (the object \<^verbatim>\<open>u\<close> of
  \<^verbatim>\<open>createPortalPulseFX\<close>), written by \<^verbatim>\<open>setView\<close> and \<^verbatim>\<open>update\<close>, and a vertex shader
  that maps the uniforms and the four attributes of one dot to a position, an opacity and a
  point size. JavaScript numbers and GLSL floats are modelled as real numbers: rounding is
  not part of the model. A 2D vector is a pair.
\<close>

type_synonym vec2 = "real \<times> real"

record uniforms =
  uTime :: real
  uRes :: vec2
  uLeft :: vec2
  uRight :: vec2
  uPortalR :: real
  uBurstT :: real
  uDriftT :: real
  uSuckT :: real
  uHoldT :: real
  uRate :: real
  uBand :: real
  uBurstRadius :: real
  uSuckWide :: real
  uDotGain :: real

record attributes =
  aSeed :: real
  aEnergy :: real
  aSize :: real
  aHueMix :: real

subsection \<open>The host side: creation, resize and clock\<close>

text \<open>The initial uniform table of \<^verbatim>\<open>createPortalPulseFX({ scene, viewW, viewH })\<close>.\<close>

definition createPortalPulseFX :: "real \<Rightarrow> real \<Rightarrow> uniforms" where
  "createPortalPulseFX viewW viewH =
     \<lparr> uTime = 0,
       uRes = (viewW, viewH),
       uLeft = (- viewW * 0.38, 0),
       uRight = (viewW * 0.38, 0),
       uPortalR = min viewH viewW * 0.22,
       uBurstT = 0.75,
       uDriftT = 1.10,
       uSuckT = 4.20,
       uHoldT = 0.45,
       uRate = 1.00,
       uBand = 3.0,
       uBurstRadius = 3.8,
       uSuckWide = 2.2,
       uDotGain = 1.15 \<rparr>"

text \<open>\<^verbatim>\<open>setView(w, h)\<close> assigns six uniforms, in the order of the source.\<close>

definition setView :: "real \<Rightarrow> real \<Rightarrow> uniforms \<Rightarrow> uniforms" where
  "setView w h u =
     u\<lparr> uRes := (w, h),
        uLeft := (- w * 0.38, 0),
        uRight := (w * 0.38, 0),
        uPortalR := min h w * 0.22,
        uBurstRadius := min 4.4 (max 3.2 (w * 0.18)),
        uBand := max 2.6 (min 3.6 (h * 0.30)) \<rparr>"

text \<open>\<^verbatim>\<open>update(t)\<close> stores the clock value.\<close>

definition update :: "real \<Rightarrow> uniforms \<Rightarrow> uniforms" where
  "update t u = u\<lparr> uTime := t \<rparr>"

subsection \<open>The dots\<close>

text \<open>
  The attribute loop of \<^verbatim>\<open>createPortalPulseFX\<close>: dot \<open>i\<close> gets its four attributes from
  \<^verbatim>\<open>hash11\<close>. \<^verbatim>\<open>Math.pow\<close> is called on a value of \<open>[0, 1)\<close> only, where it is \<open>powr\<close>.
\<close>

definition COUNT :: nat where
  "COUNT = 260"

definition hash11 :: "real \<Rightarrow> real" where
  "hash11 x = (let s = sin (x * 127.1) * 43758.5453123 in s - of_int \<lfloor>s\<rfloor>)"

definition mix :: "real \<Rightarrow> real \<Rightarrow> real \<Rightarrow> real" where
  "mix a b t = a * (1 - t) + b * t"

definition particle :: "nat \<Rightarrow> attributes" where
  "particle i =
     (let r1 = hash11 (real i * 12.9898);
          r2 = hash11 (real i * 78.233);
          r3 = hash11 (real i * 0.9182)
      in \<lparr> aSeed = r1,
           aEnergy = mix 0.85 1.15 r2,
           aSize = mix 7.0 18.0 (r3 powr 0.55),
           aHueMix = hash11 (real i * 5.123) \<rparr>)"

definition particles :: "attributes list" where
  "particles = map particle [0 ..< COUNT]"

section \<open>The vertex shader of the dots\<close>

subsection \<open>Undefined operations\<close>

text \<open>
  GLSL leaves a division by zero, \<^verbatim>\<open>mod\<close> by zero and \<^verbatim>\<open>normalize\<close> of the zero vector
  undefined. The model makes each of them an error value, and an error in a local makes the
  whole vertex undefined.
\<close>

datatype error = ModByZero | DivByZero | NormalizeZero

definition bindE :: "error + 'a \<Rightarrow> ('a \<Rightarrow> error + 'b) \<Rightarrow> error + 'b" where
  "bindE m f = (case m of Inl e \<Rightarrow> Inl e | Inr v \<Rightarrow> f v)"

definition fdiv :: "real \<Rightarrow> real \<Rightarrow> error + real" where
  "fdiv x y = (if y = 0 then Inl DivByZero else Inr (x / y))"

text \<open>\<^verbatim>\<open>mod(x, y)\<close> is \<^verbatim>\<open>x - y * floor(x / y)\<close>.\<close>

definition glsl_mod :: "real \<Rightarrow> real \<Rightarrow> error + real" where
  "glsl_mod x y = (if y = 0 then Inl ModByZero else Inr (x - y * of_int \<lfloor>x / y\<rfloor>))"

subsection \<open>Vectors and built-in functions\<close>

definition vadd :: "vec2 \<Rightarrow> vec2 \<Rightarrow> vec2" where
  "vadd p q = (fst p + fst q, snd p + snd q)"

definition vsub :: "vec2 \<Rightarrow> vec2 \<Rightarrow> vec2" where
  "vsub p q = (fst p - fst q, snd p - snd q)"

definition smul :: "real \<Rightarrow> vec2 \<Rightarrow> vec2" where
  "smul k p = (k * fst p, k * snd p)"

definition vlength :: "vec2 \<Rightarrow> real" where
  "vlength p = sqrt (fst p * fst p + snd p * snd p)"

definition normalize :: "vec2 \<Rightarrow> error + vec2" where
  "normalize p = (if vlength p = 0 then Inl NormalizeZero else Inr (smul (1 / vlength p) p))"

definition clamp :: "real \<Rightarrow> real \<Rightarrow> real \<Rightarrow> real" where
  "clamp x lo hi = min (max x lo) hi"

definition vmix :: "vec2 \<Rightarrow> vec2 \<Rightarrow> real \<Rightarrow> vec2" where
  "vmix p q t = (mix (fst p) (fst q) t, mix (snd p) (snd q) t)"

text \<open>
  \<^verbatim>\<open>smoothstep(edge0, edge1, x)\<close> by its defining formula. Every call of the shader passes
  two distinct literal edges, so its division is by a non-zero constant; one call
  (\<^verbatim>\<open>smoothstep(0.70, 0.08, d)\<close>) passes them in descending order and relies on the formula.
\<close>

definition smoothstep :: "real \<Rightarrow> real \<Rightarrow> real \<Rightarrow> real" where
  "smoothstep edge0 edge1 x =
     (let t = clamp ((x - edge0) / (edge1 - edge0)) 0 1 in t * t * (3 - 2 * t))"

text \<open>\<^verbatim>\<open>pow(x, y)\<close> is called on a base of \<open>[0, 1]\<close> only, where it is \<open>powr\<close>.\<close>

definition pow :: "real \<Rightarrow> real \<Rightarrow> real" where
  "pow x y = x powr y"

subsection \<open>The helper functions of the shader\<close>

definition clamp01 :: "real \<Rightarrow> real" where
  "clamp01 x = clamp x 0 1"

definition smooth01 :: "real \<Rightarrow> real" where
  "smooth01 t = t * t * (3 - 2 * t)"

definition easeOutCubic :: "real \<Rightarrow> real" where
  "easeOutCubic t = 1 - pow (1 - t) 3"

definition easeInOutCubic :: "real \<Rightarrow> real" where
  "easeInOutCubic t = (if t < 0.5 then 4 * t * t * t else 1 - pow (- 2 * t + 2) 3 / 2)"

definition hash :: "real \<Rightarrow> real" where
  "hash n = frac (sin n * 43758.5453123)"

definition wobble :: "vec2 \<Rightarrow> real \<Rightarrow> vec2" where
  "wobble p t =
     (let k = 2;
          n1 = sin (snd p * k + t * 1.2) + sin (fst p * k * 0.7 - t * 1.1);
          n2 = sin (fst p * k + t * 1.0) - sin (snd p * k * 0.9 + t * 1.3)
      in (n1, n2))"

definition bezier :: "vec2 \<Rightarrow> vec2 \<Rightarrow> vec2 \<Rightarrow> vec2 \<Rightarrow> real \<Rightarrow> vec2" where
  "bezier a b c d t =
     (let s = 1 - t
      in vadd (vadd (vadd (smul (s * s * s) a) (smul (3 * s * s * t) b))
                    (smul (3 * s * t * t) c))
              (smul (t * t * t) d))"

subsection \<open>The locals of \<^verbatim>\<open>main\<close> shared by the phases\<close>

definition cycle :: "uniforms \<Rightarrow> real" where
  "cycle u = uBurstT u + uDriftT u + uSuckT u + uHoldT u"

definition burstEnd :: "uniforms \<Rightarrow> real" where
  "burstEnd u = uBurstT u"

definition driftEnd :: "uniforms \<Rightarrow> real" where
  "driftEnd u = uBurstT u + uDriftT u"

definition suckEnd :: "uniforms \<Rightarrow> real" where
  "suckEnd u = uBurstT u + uDriftT u + uSuckT u"

definition dir :: "attributes \<Rightarrow> vec2" where
  "dir a = (let ang = hash (aSeed a * 91.7) * 6.2831853 in (cos ang, sin ang))"

definition rad0 :: "uniforms \<Rightarrow> attributes \<Rightarrow> real" where
  "rad0 u a = pow (hash (aSeed a * 37.3)) 6 * (uPortalR u * 0.035)"

definition packed :: "uniforms \<Rightarrow> attributes \<Rightarrow> vec2" where
  "packed u a = vadd (uLeft u) (smul (rad0 u a) (dir a))"

definition scatter :: "attributes \<Rightarrow> vec2" where
  "scatter a =
     (let rx = hash (aSeed a * 201.3) * 2 - 1;
          ry = hash (aSeed a * 413.7) * 2 - 1
      in smul (0.55 + 0.65 * hash (aSeed a * 88.2)) (rx, ry))"

subsection \<open>Phase selection\<close>

datatype phase = BURST | DRIFT | SUCK | HOLD

text \<open>The \<^verbatim>\<open>if / else if / else\<close> chain of \<^verbatim>\<open>main\<close> on the phase value \<^verbatim>\<open>ph\<close>.\<close>

definition select_phase :: "uniforms \<Rightarrow> real \<Rightarrow> phase" where
  "select_phase u ph =
     (if ph < burstEnd u then BURST
      else if ph < driftEnd u then DRIFT
      else if ph < suckEnd u then SUCK
      else HOLD)"

subsection \<open>The four branches\<close>

text \<open>Each branch yields the locals \<^verbatim>\<open>p\<close>, \<^verbatim>\<open>alpha\<close> and \<^verbatim>\<open>sizeMul\<close>, in this order.\<close>

type_synonym dot = "vec2 \<times> real \<times> real"

definition burst :: "uniforms \<Rightarrow> attributes \<Rightarrow> real \<Rightarrow> error + dot" where
  "burst u a ph =
     bindE (fdiv ph (uBurstT u)) (\<lambda>q.
       let t = clamp01 q;
           e = easeOutCubic t;
           r = uBurstRadius u * aEnergy a * e;
           cloud = smul (0.10 + 0.55 * e) (scatter a)
       in Inr (vadd (vadd (packed u a) (smul r (dir a))) cloud, 1, 1))"

text \<open>
  DRIFT and SUCK compute the same cloud position \<^verbatim>\<open>base\<close> and pull the ordinate toward
  the band with \<^verbatim>\<open>mix(p.y, clamp(p.y, -yBand, yBand), k)\<close>: DRIFT with the wobble at
  \<^verbatim>\<open>uTime\<close>, amplitude \<open>0.28 * e\<close> and \<open>k = 0.22 * e\<close>, SUCK for its \<^verbatim>\<open>start\<close> with the
  wobble at \<^verbatim>\<open>tBoundary\<close>, amplitude \<open>0.28\<close> and \<open>k = 0.22\<close>.
\<close>

definition base :: "uniforms \<Rightarrow> attributes \<Rightarrow> vec2" where
  "base u a =
     (let r = uBurstRadius u * aEnergy a
      in vadd (vadd (packed u a) (smul r (dir a))) (smul 0.65 (scatter a)))"

definition banded :: "uniforms \<Rightarrow> vec2 \<Rightarrow> real \<Rightarrow> vec2" where
  "banded u p k =
     (let yBand = uBand u in (fst p, mix (snd p) (clamp (snd p) (- yBand) yBand) k))"

definition drift :: "uniforms \<Rightarrow> attributes \<Rightarrow> real \<Rightarrow> error + dot" where
  "drift u a ph =
     bindE (fdiv (ph - burstEnd u) (uDriftT u)) (\<lambda>q.
       let t = clamp01 q;
           e = smooth01 t;
           w = smul (0.28 * e) (wobble (smul 0.55 (base u a)) (uTime u + aSeed a * 10.0));
           p = vadd (base u a) w
       in Inr (banded u p (0.22 * e), 1, 1))"

definition start :: "uniforms \<Rightarrow> attributes \<Rightarrow> real \<Rightarrow> vec2" where
  "start u a tBoundary =
     (let w = smul 0.28 (wobble (smul 0.55 (base u a)) (tBoundary + aSeed a * 10.0))
      in banded u (vadd (base u a) w) 0.22)"

text \<open>
  SUCK, block by block as the source comments it. The staggered commit: the local progress
  of a dot after its own delay.
\<close>

definition delay :: "attributes \<Rightarrow> real" where
  "delay a = 0.05 + 0.55 * hash (aSeed a * 999.1)"

definition commit :: "attributes \<Rightarrow> real \<Rightarrow> error + real" where
  "commit a tS =
     bindE (fdiv (tS - delay a) (max 0.001 (1 - delay a))) (\<lambda>ql. Inr (clamp01 ql))"

text \<open>The wide capture pull from the start position \<open>st\<close> toward the right portal.\<close>

definition capture :: "uniforms \<Rightarrow> real \<Rightarrow> vec2 \<Rightarrow> error + vec2" where
  "capture u tS st =
     (let toR = vsub (uRight u) st;
          prePull = smooth01 tS
      in bindE (normalize toR) (\<lambda>n.
           Inr (vadd st (smul (vlength toR * 0.06 * uSuckWide u * prePull) n))))"

text \<open>The curve into the portal, blended in: \<^verbatim>\<open>p\<close> before the micro-spiral.\<close>

definition curve :: "uniforms \<Rightarrow> attributes \<Rightarrow> vec2 \<Rightarrow> real \<Rightarrow> vec2" where
  "curve u a cap local =
     (let e = easeInOutCubic local;
          d = uRight u;
          bend = hash (aSeed a * 321.7) * 2 - 1;
          b = vadd (smul 0.5 (vadd cap d)) (0, 1.15 + 0.55 * bend);
          c = vadd (smul 0.5 (vadd cap d)) (0, - 1.05 - 0.45 * bend);
          curvePos = bezier cap b c d e
      in vmix cap curvePos (smoothstep 0 0.08 local))"

text \<open>The micro-spiral: \<^verbatim>\<open>p += tangent * spiralAmt * spin\<close>.\<close>

definition spiralAmt :: "real \<Rightarrow> real \<Rightarrow> real" where
  "spiralAmt tS local =
     (let spiralIn = smoothstep 0.06 0.22 tS;
          commitIn = smoothstep 0.02 0.20 local;
          spiralOut = 1 - smoothstep 0.60 1.0 local
      in 0.22 * spiralIn * commitIn * spiralOut)"

definition spiral :: "uniforms \<Rightarrow> attributes \<Rightarrow> real \<Rightarrow> real \<Rightarrow> vec2 \<Rightarrow> error + vec2" where
  "spiral u a tS local p =
     (let spin = hash (aSeed a * 777.7) * 2 - 1;
          radial = vsub (uRight u) p
      in bindE (normalize (vadd (- snd radial, fst radial) (0.0001, 0.0001))) (\<lambda>tangent.
           Inr (vadd p (smul (spiralAmt tS local * spin) tangent))))"

text \<open>The opacity and the size multiplier of SUCK, from \<^verbatim>\<open>local\<close> and the final \<^verbatim>\<open>p\<close>.\<close>

definition fade :: "uniforms \<Rightarrow> real \<Rightarrow> vec2 \<Rightarrow> real \<times> real" where
  "fade u local p =
     (let alpha = 1 - smoothstep 0.35 0.80 local;
          distToPortal = vlength (vsub p (uRight u));
          nearFade = smoothstep 0.70 0.08 distToPortal;
          shrink = smoothstep 0.18 0.85 distToPortal
      in (alpha * (1 - 0.92 * nearFade), mix 0.20 1.0 shrink))"

definition suck :: "uniforms \<Rightarrow> attributes \<Rightarrow> real \<Rightarrow> error + dot" where
  "suck u a ph =
     bindE (fdiv (ph - driftEnd u) (uSuckT u)) (\<lambda>q.
     bindE (fdiv (ph - driftEnd u) (max 0.001 (uRate u))) (\<lambda>dt.
       let tS = clamp01 q;
           tBoundary = uTime u - dt
       in
     bindE (commit a tS) (\<lambda>local.
     bindE (capture u tS (start u a tBoundary)) (\<lambda>cap.
     bindE (spiral u a tS local (curve u a cap local)) (\<lambda>p.
       Inr (p, fade u local p))))))"

definition hold :: "uniforms \<Rightarrow> dot" where
  "hold u = (uRight u, 0, 0)"

subsection \<open>\<^verbatim>\<open>main\<close>\<close>

text \<open>
  What \<^verbatim>\<open>main\<close> hands on for one dot: the world position \<^verbatim>\<open>p\<close> (the camera matrices of
  three.js map it to \<^verbatim>\<open>gl_Position\<close>), the varyings and the point size, and the local
  \<^verbatim>\<open>sizeMul\<close> the point size is scaled by.
\<close>

record vertex =
  position :: vec2
  vAlpha :: real
  sizeMul :: real
  gl_PointSize :: real
  vHueMix :: real

definition shade :: "uniforms \<Rightarrow> attributes \<Rightarrow> real \<Rightarrow> error + dot" where
  "shade u a ph =
     (case select_phase u ph of
        BURST \<Rightarrow> burst u a ph
      | DRIFT \<Rightarrow> drift u a ph
      | SUCK \<Rightarrow> suck u a ph
      | HOLD \<Rightarrow> Inr (hold u))"

definition phase_value :: "uniforms \<Rightarrow> error + real" where
  "phase_value u = (let T = uTime u * uRate u in glsl_mod T (cycle u))"

definition main :: "uniforms \<Rightarrow> attributes \<Rightarrow> error + vertex" where
  "main u a =
     bindE (phase_value u) (\<lambda>ph.
     bindE (shade u a ph) (\<lambda>(p, alpha, sm).
       let pulse = 0.92 + 0.18 * sin (uTime u * 1.25 + aSeed a * 12.0)
       in Inr \<lparr> position = p,
                vAlpha = alpha,
                sizeMul = sm,
                gl_PointSize = aSize a * uDotGain u * pulse * sm,
                vHueMix = aHueMix a \<rparr>))"

subsection \<open>Frames\<close>

text \<open>
  One pass of \<^verbatim>\<open>animate\<close> stores the clock value with \<^verbatim>\<open>update\<close> and draws every dot;
  \<open>run\<close> threads the uniform table through a sequence of clock values.
\<close>

definition render :: "uniforms \<Rightarrow> (error + vertex) list" where
  "render u = map (main u) particles"

fun run :: "uniforms \<Rightarrow> real list \<Rightarrow> (error + vertex) list list" where
  "run u [] = []"
| "run u (t # ts) = (let u' = update t u in render u' # run u' ts)"

section \<open>Basic facts\<close>

subsection \<open>Ranges of the built-in and helper functions\<close>

lemma hash_range: "0 \<le> hash n \<and> hash n < 1"
  by (simp add: hash_def frac_lt_1)

lemma clamp01_range: "0 \<le> clamp01 x \<and> clamp01 x \<le> 1"
  by (simp add: clamp01_def clamp_def)

lemma smooth01_range:
  assumes "0 \<le> t" "t \<le> 1"
  shows "0 \<le> smooth01 t \<and> smooth01 t \<le> 1"
proof -
  have a: "0 \<le> t * t * (3 - 2 * t)" using assms by simp
  have "0 \<le> (1 - t) * (1 - t) * (1 + 2 * t)" using assms by simp
  moreover have "(1 - t) * (1 - t) * (1 + 2 * t) = 1 - t * t * (3 - 2 * t)"
    by (simp add: algebra_simps)
  ultimately have "t * t * (3 - 2 * t) \<le> 1" by linarith
  with a show ?thesis by (simp add: smooth01_def)
qed

lemma smoothstep_smooth01: "smoothstep e0 e1 x = smooth01 (clamp01 ((x - e0) / (e1 - e0)))"
  by (simp add: smoothstep_def smooth01_def clamp01_def Let_def)

lemma smoothstep_range: "0 \<le> smoothstep e0 e1 x \<and> smoothstep e0 e1 x \<le> 1"
  unfolding smoothstep_smooth01 using smooth01_range clamp01_range by blast

lemma mix_range:
  assumes "0 \<le> t" "t \<le> 1" "lo \<le> hi"
  shows "lo \<le> mix lo hi t \<and> mix lo hi t \<le> hi"
proof -
  have "mix lo hi t = lo + (hi - lo) * t" by (simp add: mix_def algebra_simps)
  moreover have "0 \<le> (hi - lo) * t" using assms by simp
  moreover have "(hi - lo) * t \<le> (hi - lo) * 1" using assms by (intro mult_left_mono) auto
  ultimately show ?thesis by simp
qed

lemma fade_alpha_range: "0 \<le> fst (fade u l p) \<and> fst (fade u l p) \<le> 1"
proof -
  define s1 where "s1 = smoothstep 0.35 0.80 l"
  define s2 where "s2 = smoothstep 0.70 0.08 (vlength (vsub p (uRight u)))"
  have r1: "0 \<le> s1" "s1 \<le> 1" using smoothstep_range by (simp_all add: s1_def)
  have r2: "0 \<le> s2" "s2 \<le> 1" using smoothstep_range by (simp_all add: s2_def)
  have e: "fst (fade u l p) = (1 - s1) * (1 - 0.92 * s2)"
    by (simp add: fade_def Let_def s1_def s2_def)
  have a: "0 \<le> 1 - s1" "1 - s1 \<le> 1" using r1 by simp_all
  have b: "0 \<le> 1 - 0.92 * s2" "1 - 0.92 * s2 \<le> 1" using r2 by simp_all
  have "0 \<le> (1 - s1) * (1 - 0.92 * s2)" using a b by simp
  moreover have "(1 - s1) * (1 - 0.92 * s2) \<le> 1 * 1"
    using a b by (intro mult_mono) auto
  ultimately show ?thesis using e by simp
qed

lemma fade_size_range: "0.20 \<le> snd (fade u l p) \<and> snd (fade u l p) \<le> 1"
proof -
  have "snd (fade u l p) = mix 0.20 1.0 (smoothstep 0.18 0.85 (vlength (vsub p (uRight u))))"
    by (simp add: fade_def Let_def)
  then show ?thesis using mix_range[of "smoothstep 0.18 0.85 (vlength (vsub p (uRight u)))" "0.20" "1.0"] smoothstep_range
    by simp
qed

lemma bindE_Inr: "bindE m f = Inr y \<longleftrightarrow> (\<exists>x. m = Inr x \<and> f x = Inr y)"
  by (cases m) (simp_all add: bindE_def)

lemma burst_Inr: "burst u a ph = Inr d \<Longrightarrow> fst (snd d) = 1 \<and> snd (snd d) = 1"
  by (auto simp add: burst_def bindE_Inr Let_def)

lemma drift_Inr: "drift u a ph = Inr d \<Longrightarrow> fst (snd d) = 1 \<and> snd (snd d) = 1"
  by (auto simp add: drift_def bindE_Inr Let_def)

lemma bindE_InrE:
  assumes "bindE m f = Inr y"
  obtains x where "m = Inr x" and "f x = Inr y"
  using assms by (cases m) (simp_all add: bindE_def)

lemma suck_Inr:
  assumes "suck u a ph = Inr d"
  shows "\<exists>l. snd d = fade u l (fst d)"
  using assms unfolding suck_def Let_def
  by (elim bindE_InrE) (metis fst_conv snd_conv sum.inject(2))

lemma shade_range:
  assumes "shade u a ph = Inr d"
  shows "0 \<le> fst (snd d) \<and> fst (snd d) \<le> 1 \<and> 0 \<le> snd (snd d) \<and> snd (snd d) \<le> 1"
proof (cases "select_phase u ph")
  case BURST
  with assms have "burst u a ph = Inr d" by (simp add: shade_def)
  from burst_Inr[OF this] show ?thesis by simp
next
  case DRIFT
  with assms have "drift u a ph = Inr d" by (simp add: shade_def)
  from drift_Inr[OF this] show ?thesis by simp
next
  case SUCK
  with assms have "suck u a ph = Inr d" by (simp add: shade_def)
  from suck_Inr[OF this] obtain l where "snd d = fade u l (fst d)" by blast
  then show ?thesis using fade_alpha_range[of u l "fst d"] fade_size_range[of u l "fst d"] by simp
next
  case HOLD
  with assms have "d = hold u" by (simp add: shade_def)
  then show ?thesis by (simp add: hold_def)
qed

lemma main_Inr:
  "main u a = Inr v \<Longrightarrow> \<exists>ph p al sm. phase_value u = Inr ph \<and> shade u a ph = Inr (p, al, sm)
      \<and> position v = p \<and> vAlpha v = al \<and> sizeMul v = sm"
  by (auto simp add: main_def bindE_Inr Let_def)


subsection \<open>Evaluation at special arguments\<close>

lemma hash_0: "hash 0 = 0"
  by (simp add: hash_def)

lemma hash11_0: "hash11 0 = 0"
  by (simp add: hash11_def)

lemma pow_nat: "0 \<le> x \<Longrightarrow> pow x (numeral n) = x ^ numeral n"
  by (cases "x = 0") (simp_all add: pow_def powr_numeral)

lemma particle_0: "particle 0 = \<lparr> aSeed = 0, aEnergy = 0.85, aSize = 7, aHueMix = 0 \<rparr>"
  by (simp add: particle_def hash11_0 mix_def)

lemma glsl_mod_range:
  assumes "0 < y"
  shows "\<exists>r. glsl_mod x y = Inr r \<and> 0 \<le> r \<and> r < y"
proof -
  define k where "k = real_of_int \<lfloor>x / y\<rfloor>"
  have a: "k \<le> x / y" and b: "x / y < k + 1" unfolding k_def by linarith+
  have xy: "y * (x / y) = x" using assms by simp
  have "y * k \<le> y * (x / y)" using a assms by (intro mult_left_mono) simp_all
  then have lo: "y * k \<le> x" using xy by simp
  have "y * (x / y) < y * (k + 1)" using b assms by (intro mult_strict_left_mono) simp_all
  then have hi: "x < y * k + y" using xy by (simp add: algebra_simps)
  have "glsl_mod x y = Inr (x - y * k)" using assms by (simp add: glsl_mod_def k_def)
  with lo hi show ?thesis by simp
qed

lemma glsl_mod_small:
  assumes "0 \<le> x" "x < y"
  shows "glsl_mod x y = Inr x"
proof -
  have "\<lfloor>x / y\<rfloor> = 0" using assms by (simp add: floor_eq_iff)
  then show ?thesis using assms by (simp add: glsl_mod_def)
qed

lemma glsl_mod_0: "y \<noteq> 0 \<Longrightarrow> glsl_mod 0 y = Inr 0"
  by (simp add: glsl_mod_def)

subsection \<open>The clock value, and the first instant of BURST\<close>

lemma update_fields [simp]:
  "uTime (update t u) = t"
  "uRes (update t u) = uRes u"
  "uLeft (update t u) = uLeft u"
  "uRight (update t u) = uRight u"
  "uPortalR (update t u) = uPortalR u"
  "uBurstT (update t u) = uBurstT u"
  "uDriftT (update t u) = uDriftT u"
  "uSuckT (update t u) = uSuckT u"
  "uHoldT (update t u) = uHoldT u"
  "uRate (update t u) = uRate u"
  "uBand (update t u) = uBand u"
  "uBurstRadius (update t u) = uBurstRadius u"
  "uSuckWide (update t u) = uSuckWide u"
  "uDotGain (update t u) = uDotGain u"
  by (simp_all add: update_def)

lemma update_locals [simp]:
  "cycle (update t u) = cycle u"
  "burstEnd (update t u) = burstEnd u"
  "driftEnd (update t u) = driftEnd u"
  "suckEnd (update t u) = suckEnd u"
  "rad0 (update t u) a = rad0 u a"
  "packed (update t u) a = packed u a"
  "base (update t u) a = base u a"
  "banded (update t u) p k = banded u p k"
  "start (update t u) a tb = start u a tb"
  "select_phase (update t u) ph = select_phase u ph"
  "hold (update t u) = hold u"
  by (simp_all add: cycle_def burstEnd_def driftEnd_def suckEnd_def rad0_def packed_def
      base_def banded_def start_def select_phase_def hold_def)

lemma update_update [simp]: "update t (update t' u) = update t u"
  by (simp add: update_def)

lemma vadd_zero [simp]: "vadd p (0, 0) = p" "vadd (0, 0) p = p"
  by (simp_all add: vadd_def)

lemma smul_zero [simp]: "smul 0 p = (0, 0)"
  by (simp add: smul_def)

lemma smul_one [simp]: "smul 1 p = p"
  by (simp add: smul_def)

lemma clamp01_simps [simp]: "clamp01 0 = 0" "clamp01 1 = 1"
  by (simp_all add: clamp01_def clamp_def)

lemma easeOutCubic_simps [simp]: "easeOutCubic 0 = 0" "easeOutCubic 1 = 1"
  by (simp_all add: easeOutCubic_def pow_def)

lemma smooth01_simps [simp]: "smooth01 0 = 0" "smooth01 1 = 1"
  by (simp_all add: smooth01_def)

lemma burst_at_0:
  assumes "uBurstT u \<noteq> 0"
  shows "burst u a 0 = Inr (vadd (packed u a) (smul 0.10 (scatter a)), 1, 1)"
  using assms by (simp add: burst_def fdiv_def bindE_def Let_def)

lemma rad0_bound: "\<bar>rad0 u a\<bar> \<le> 0.035 * \<bar>uPortalR u\<bar>"
proof -
  define h where "h = hash (aSeed a * 37.3)"
  have h: "0 \<le> h" "h \<le> 1" using hash_range[of "aSeed a * 37.3"] by (simp_all add: h_def)
  have p: "pow h 6 = h ^ 6" using h by (simp add: pow_nat)
  have e: "rad0 u a = h ^ 6 * (uPortalR u * 0.035)"
    unfolding rad0_def h_def[symmetric] p ..
  have "0 \<le> h ^ 6" "h ^ 6 \<le> 1" using h by (simp_all add: power_le_one)
  then have "\<bar>h ^ 6 * (uPortalR u * 0.035)\<bar> \<le> 1 * \<bar>uPortalR u * 0.035\<bar>"
    unfolding abs_mult by (intro mult_right_mono) simp_all
  then show ?thesis unfolding e by (simp add: abs_mult)
qed

lemma dir_bound: "\<bar>fst (dir a)\<bar> \<le> 1 \<and> \<bar>snd (dir a)\<bar> \<le> 1"
  by (simp add: dir_def Let_def)

lemma scatter_bound: "\<bar>fst (scatter a)\<bar> \<le> 1.2 \<and> \<bar>snd (scatter a)\<bar> \<le> 1.2"
proof -
  define f where "f = 0.55 + 0.65 * hash (aSeed a * 88.2)"
  define rx where "rx = hash (aSeed a * 201.3) * 2 - 1"
  define ry where "ry = hash (aSeed a * 413.7) * 2 - 1"
  have f: "0 \<le> f" "f \<le> 1.2" using hash_range[of "aSeed a * 88.2"] by (simp_all add: f_def)
  have rx: "\<bar>rx\<bar> \<le> 1" using hash_range[of "aSeed a * 201.3"] by (simp add: rx_def abs_le_iff)
  have ry: "\<bar>ry\<bar> \<le> 1" using hash_range[of "aSeed a * 413.7"] by (simp add: ry_def abs_le_iff)
  have s: "scatter a = (f * rx, f * ry)"
    by (simp add: scatter_def Let_def smul_def f_def rx_def ry_def)
  have "\<bar>f * rx\<bar> \<le> 1.2 * 1" unfolding abs_mult using f rx by (intro mult_mono) simp_all
  moreover have "\<bar>f * ry\<bar> \<le> 1.2 * 1" unfolding abs_mult using f ry by (intro mult_mono) simp_all
  ultimately show ?thesis by (simp add: s)
qed

lemma spawn_offset_bound:
  "\<bar>fst (vadd (packed u a) (smul 0.10 (scatter a))) - fst (uLeft u)\<bar> \<le> 0.035 * \<bar>uPortalR u\<bar> + 0.12
   \<and> \<bar>snd (vadd (packed u a) (smul 0.10 (scatter a))) - snd (uLeft u)\<bar> \<le> 0.035 * \<bar>uPortalR u\<bar> + 0.12"
proof -
  have r: "\<bar>rad0 u a * fst (dir a)\<bar> \<le> 0.035 * \<bar>uPortalR u\<bar> * 1"
    unfolding abs_mult using rad0_bound[of u a] dir_bound[of a] by (intro mult_mono) simp_all
  have r': "\<bar>rad0 u a * snd (dir a)\<bar> \<le> 0.035 * \<bar>uPortalR u\<bar> * 1"
    unfolding abs_mult using rad0_bound[of u a] dir_bound[of a] by (intro mult_mono) simp_all
  from r r' scatter_bound[of a] show ?thesis
    by (simp add: vadd_def smul_def packed_def) linarith
qed

subsection \<open>The table after loading in a 16 by 10 view, and dot 0\<close>

text \<open>
  On load the page creates the effect and calls \<^verbatim>\<open>setView\<close> once; with a window of aspect
  16:10 the view is 16 by 10 world units. Dot 0 has the seed 0, whose hashes are all 0.
\<close>

lemma loaded_fields:
  "uTime (setView 16 10 (createPortalPulseFX 16 10)) = 0"
  "uLeft (setView 16 10 (createPortalPulseFX 16 10)) = (- 6.08, 0)"
  "uRight (setView 16 10 (createPortalPulseFX 16 10)) = (6.08, 0)"
  "uPortalR (setView 16 10 (createPortalPulseFX 16 10)) = 2.2"
  "uBurstT (setView 16 10 (createPortalPulseFX 16 10)) = 0.75"
  "uDriftT (setView 16 10 (createPortalPulseFX 16 10)) = 1.1"
  "uSuckT (setView 16 10 (createPortalPulseFX 16 10)) = 4.2"
  "uHoldT (setView 16 10 (createPortalPulseFX 16 10)) = 0.45"
  "uRate (setView 16 10 (createPortalPulseFX 16 10)) = 1"
  "uBand (setView 16 10 (createPortalPulseFX 16 10)) = 3"
  "uBurstRadius (setView 16 10 (createPortalPulseFX 16 10)) = 3.2"
  "uSuckWide (setView 16 10 (createPortalPulseFX 16 10)) = 2.2"
  "uDotGain (setView 16 10 (createPortalPulseFX 16 10)) = 1.15"
  by (simp_all add: setView_def createPortalPulseFX_def)

lemma loaded_cycle: "cycle (setView 16 10 (createPortalPulseFX 16 10)) = 6.5"
  by (simp add: cycle_def loaded_fields)

lemma dot_0_fields:
  "aSeed (particle 0) = 0"
  "aEnergy (particle 0) = 0.85"
  "aSize (particle 0) = 7"
  "aHueMix (particle 0) = 0"
  by (simp_all add: particle_0)

lemma dot_0_locals:
  "dir (particle 0) = (1, 0)"
  "scatter (particle 0) = (- 0.55, - 0.55)"
  "rad0 u (particle 0) = 0"
  "packed u (particle 0) = uLeft u"
  by (simp_all add: dot_0_fields dir_def scatter_def rad0_def packed_def hash_0 pow_def smul_def
      Let_def)

subsection \<open>Which operations can be undefined\<close>

lemma fdiv_Inr: "y \<noteq> 0 \<Longrightarrow> fdiv x y = Inr (x / y)"
  by (simp add: fdiv_def)

lemma fdiv_clamped: "0 < e \<Longrightarrow> fdiv x (max e y) = Inr (x / max e y)"
  by (simp add: fdiv_def max_def)

lemma bindE_simps [simp]: "bindE (Inr x) f = f x" "bindE (Inl e) f = Inl e"
  by (simp_all add: bindE_def)

lemma burst_total: "uBurstT u \<noteq> 0 \<Longrightarrow> \<exists>d. burst u a ph = Inr d"
  by (simp add: burst_def fdiv_Inr Let_def)

lemma drift_total: "uDriftT u \<noteq> 0 \<Longrightarrow> \<exists>d. drift u a ph = Inr d"
  by (simp add: drift_def fdiv_Inr Let_def)

lemma bindE_InlE:
  assumes "bindE m f = Inl e"
  obtains "m = Inl e" | x where "m = Inr x" and "f x = Inl e"
  using assms by (cases m) (simp_all add: bindE_def)

lemma fdiv_Inl: "fdiv x y = Inl e \<Longrightarrow> y = 0 \<and> e = DivByZero"
  by (simp add: fdiv_def split: if_splits)

lemma fdiv_clamped_Inl: "fdiv x (max 0.001 y) = Inl e \<Longrightarrow> False"
  by (auto dest!: fdiv_Inl simp add: max_def split: if_splits)

lemma normalize_Inl: "normalize p = Inl e \<Longrightarrow> e = NormalizeZero"
  by (simp add: normalize_def split: if_splits)

lemma suck_Inl:
  assumes "suck u a ph = Inl e" and "uSuckT u \<noteq> 0"
  shows "e = NormalizeZero"
  using assms unfolding suck_def commit_def capture_def spiral_def Let_def
  by (elim bindE_InlE) (auto dest: fdiv_Inl fdiv_clamped_Inl normalize_Inl)

lemma suck_cases:
  assumes "uSuckT u \<noteq> 0"
  shows "suck u a ph = Inl NormalizeZero \<or> (\<exists>d. suck u a ph = Inr d)"
proof (cases "suck u a ph")
  case (Inl e)
  with suck_Inl[OF this assms] show ?thesis by simp
next
  case (Inr d)
  then show ?thesis by blast
qed

lemma shade_cases:
  assumes "0 \<le> ph"
  shows "(select_phase u ph = SUCK \<and> shade u a ph = Inl NormalizeZero) \<or> (\<exists>d. shade u a ph = Inr d)"
proof (cases "select_phase u ph")
  case BURST
  then have "uBurstT u \<noteq> 0" using assms by (auto simp add: select_phase_def burstEnd_def split: if_splits)
  from burst_total[OF this] BURST show ?thesis by (simp add: shade_def)
next
  case DRIFT
  then have "uDriftT u \<noteq> 0"
    by (auto simp add: select_phase_def burstEnd_def driftEnd_def split: if_splits)
  from drift_total[OF this] DRIFT show ?thesis by (simp add: shade_def)
next
  case SUCK
  then have "uSuckT u \<noteq> 0"
    by (auto simp add: select_phase_def driftEnd_def suckEnd_def split: if_splits)
  from suck_cases[OF this] SUCK show ?thesis by (simp add: shade_def)
next
  case HOLD
  then have "shade u a ph = Inr (hold u)" by (simp add: shade_def)
  then show ?thesis by blast
qed

lemma main_cases:
  assumes "phase_value u = Inr ph" and "0 \<le> ph"
  shows "(select_phase u ph = SUCK \<and> main u a = Inl NormalizeZero) \<or> (\<exists>v. main u a = Inr v)"
  using shade_cases[OF assms(2), of u a] assms(1)
  by (auto simp add: main_def Let_def split: prod.splits)

subsection \<open>A run of frames\<close>

lemma run_map: "run u ts = map (\<lambda>t. render (update t u)) ts"
  by (induction ts arbitrary: u) (simp_all add: Let_def)

subsection \<open>The branches at the ends of their intervals\<close>

lemma mix_ends [simp]: "mix x y 0 = x" "mix x y 1 = y"
  by (simp_all add: mix_def)

lemma vmix_ends [simp]: "vmix p q 0 = p" "vmix p q 1 = q"
  by (simp_all add: vmix_def)

lemma banded_zero [simp]: "banded u p 0 = p"
  by (simp add: banded_def Let_def)

lemma burst_at_end:
  assumes "uBurstT u \<noteq> 0"
  shows "burst u a (burstEnd u) = Inr (base u a, 1, 1)"
  using assms by (simp add: burst_def burstEnd_def fdiv_Inr base_def Let_def)

lemma drift_at_start:
  assumes "uDriftT u \<noteq> 0"
  shows "drift u a (burstEnd u) = Inr (base u a, 1, 1)"
  using assms by (simp add: drift_def fdiv_Inr Let_def)

lemma drift_at_end:
  assumes "uDriftT u \<noteq> 0"
  shows "drift u a (driftEnd u) = Inr (start u a (uTime u), 1, 1)"
  using assms by (simp add: drift_def driftEnd_def burstEnd_def fdiv_Inr start_def Let_def)

lemma vlength_zero_iff: "vlength p = 0 \<longleftrightarrow> p = (0, 0)"
proof -
  have "fst p * fst p + snd p * snd p = 0 \<longleftrightarrow> fst p = 0 \<and> snd p = 0"
    by (simp add: sum_squares_eq_zero_iff)
  then show ?thesis by (cases p) (simp add: vlength_def)
qed

lemma normalize_Inr: "p \<noteq> (0, 0) \<Longrightarrow> normalize p = Inr (smul (1 / vlength p) p)"
  by (simp add: normalize_def vlength_zero_iff)

lemma vsub_zero_iff: "vsub p q = (0, 0) \<longleftrightarrow> q = p"
  by (cases p, cases q) (auto simp add: vsub_def)

lemma smoothstep_below:
  assumes "x \<le> e0" and "e0 < e1"
  shows "smoothstep e0 e1 x = 0"
proof -
  have "(x - e0) / (e1 - e0) \<le> 0" using assms by (simp add: divide_le_0_iff)
  then show ?thesis by (simp add: smoothstep_def clamp_def Let_def max_def)
qed

lemma smoothstep_above:
  assumes "e1 \<le> x" and "e0 < e1"
  shows "smoothstep e0 e1 x = 1"
proof -
  have "1 \<le> (x - e0) / (e1 - e0)" using assms by (simp add: pos_le_divide_eq)
  then show ?thesis by (simp add: smoothstep_def clamp_def Let_def min_def max_def)
qed

text \<open>The descending call: 0 far from the portal.\<close>

lemma smoothstep_descending_far:
  assumes "e0 \<le> x" and "e1 < e0"
  shows "smoothstep e0 e1 x = 0"
proof -
  have "(x - e0) / (e1 - e0) \<le> 0" using assms by (simp add: divide_le_0_iff)
  then show ?thesis by (simp add: smoothstep_def clamp_def Let_def max_def)
qed

lemma delay_range: "0.05 \<le> delay a \<and> delay a < 0.60"
  using hash_range[of "aSeed a * 999.1"] by (simp add: delay_def)

lemma commit_value: "commit a tS = Inr (clamp01 ((tS - delay a) / (1 - delay a)))"
proof -
  have "max 0.001 (1 - delay a) = 1 - delay a" using delay_range[of a] by (simp add: max_def)
  moreover have "1 - delay a \<noteq> 0" using delay_range[of a] by simp
  ultimately show ?thesis by (simp add: commit_def fdiv_Inr)
qed

lemma commit_at_start: "commit a 0 = Inr 0"
proof -
  have "(0 - delay a) / (1 - delay a) \<le> 0"
    using delay_range[of a] by (simp add: divide_le_0_iff)
  then show ?thesis unfolding commit_value by (simp add: clamp01_def clamp_def max_def)
qed

lemma commit_at_end: "commit a 1 = Inr 1"
proof -
  have "1 - delay a \<noteq> 0" using delay_range[of a] by simp
  then show ?thesis unfolding commit_value by simp
qed

lemma bezier_ends [simp]: "bezier a b c d 0 = a" "bezier a b c d 1 = d"
  by (simp_all add: bezier_def Let_def)

lemma easeInOutCubic_simps [simp]: "easeInOutCubic 0 = 0" "easeInOutCubic 1 = 1"
  by (simp_all add: easeInOutCubic_def pow_def)

lemma curve_at_start: "curve u a cap 0 = cap"
  by (simp add: curve_def Let_def smoothstep_below)

lemma curve_at_end: "curve u a cap 1 = uRight u"
  by (simp add: curve_def Let_def smoothstep_above)

lemma spiralAmt_at_start: "spiralAmt 0 l = 0"
  by (simp add: spiralAmt_def Let_def smoothstep_below)

lemma spiralAmt_at_end: "spiralAmt tS 1 = 0"
  by (simp add: spiralAmt_def Let_def smoothstep_above)

lemma fade_far:
  assumes "0.85 \<le> vlength (vsub p (uRight u))"
  shows "fade u 0 p = (1, 1)"
proof -
  have "smoothstep 0.35 0.80 0 = 0" by (simp add: smoothstep_below)
  moreover have "smoothstep 0.70 0.08 (vlength (vsub p (uRight u))) = 0"
    using assms by (intro smoothstep_descending_far) simp_all
  moreover have "smoothstep 0.18 0.85 (vlength (vsub p (uRight u))) = 1"
    using assms by (intro smoothstep_above) simp_all
  ultimately show ?thesis by (simp add: fade_def Let_def)
qed

lemma fade_at_portal: "fade u 1 (uRight u) = (0, 0.20)"
proof -
  have "smoothstep 0.35 0.80 1 = 1" by (simp add: smoothstep_above)
  moreover have "vlength (vsub (uRight u) (uRight u)) = 0" by (simp add: vlength_def vsub_def)
  moreover have "smoothstep 0.18 0.85 0 = 0" by (simp add: smoothstep_below)
  ultimately show ?thesis by (simp add: fade_def Let_def)
qed

lemma capture_Inr:
  assumes "st \<noteq> uRight u"
  shows "capture u tS st =
    Inr (vadd st (smul (0.06 * uSuckWide u * smooth01 tS) (vsub (uRight u) st)))"
proof -
  let ?toR = "vsub (uRight u) st"
  have nz: "?toR \<noteq> (0, 0)" using assms by (simp add: vsub_zero_iff)
  then have l: "vlength ?toR \<noteq> 0" by (simp add: vlength_zero_iff)
  have "smul (vlength ?toR * 0.06 * uSuckWide u * smooth01 tS) (smul (1 / vlength ?toR) ?toR)
      = smul (0.06 * uSuckWide u * smooth01 tS) ?toR"
    using l by (simp add: smul_def)
  then show ?thesis unfolding capture_def Let_def normalize_Inr[OF nz] by simp
qed

lemma capture_at_start: "st \<noteq> uRight u \<Longrightarrow> capture u 0 st = Inr st"
  by (simp add: capture_Inr)

lemma tangent_nonzero:
  "vadd (- snd (vsub r p), fst (vsub r p)) (0.0001, 0.0001) = (0, 0)
     \<longleftrightarrow> p = vadd r (0.0001, - 0.0001)"
  by (cases r, cases p) (auto simp add: vadd_def vsub_def)

lemma spiral_still:
  assumes "spiralAmt tS l = 0" and "p \<noteq> vadd (uRight u) (0.0001, - 0.0001)"
  shows "spiral u a tS l p = Inr p"
proof -
  have "vadd (- snd (vsub (uRight u) p), fst (vsub (uRight u) p)) (0.0001, 0.0001) \<noteq> (0, 0)"
    using assms(2) tangent_nonzero[of "uRight u" p] by blast
  from normalize_Inr[OF this] assms(1) show ?thesis
    unfolding spiral_def Let_def by simp
qed

lemma suck_at_start:
  assumes "uSuckT u \<noteq> 0"
    and "start u a (uTime u) \<noteq> uRight u"
    and "start u a (uTime u) \<noteq> vadd (uRight u) (0.0001, - 0.0001)"
  shows "suck u a (driftEnd u) = Inr (start u a (uTime u), fade u 0 (start u a (uTime u)))"
  unfolding suck_def Let_def
  by (simp add: fdiv_Inr[OF assms(1)] fdiv_clamped commit_at_start capture_at_start[OF assms(2)]
      curve_at_start spiral_still[OF spiralAmt_at_start assms(3)])

lemma suck_at_end:
  assumes "uSuckT u \<noteq> 0"
    and "start u a (uTime u - uSuckT u / max 0.001 (uRate u)) \<noteq> uRight u"
  shows "suck u a (suckEnd u) = Inr (uRight u, 0, 0.20)"
proof -
  have d: "suckEnd u - driftEnd u = uSuckT u" by (simp add: suckEnd_def driftEnd_def)
  have p: "uRight u \<noteq> vadd (uRight u) (0.0001, - 0.0001)"
    by (cases "uRight u") (simp add: vadd_def)
  have f: "fdiv (uSuckT u) (max 0.001 (uRate u)) = Inr (uSuckT u / max 0.001 (uRate u))"
    by (rule fdiv_clamped) simp
  show ?thesis
    unfolding suck_def Let_def d fdiv_Inr[OF assms(1)] f bindE_simps
    using assms
    by (simp add: commit_at_end capture_Inr curve_at_end
        spiral_still[OF spiralAmt_at_end p] fade_at_portal)
qed

subsection \<open>SUCK is defined for a dot that starts left of the right portal\<close>

lemma banded_fst [simp]: "fst (banded u p k) = fst p"
  by (simp add: banded_def Let_def)

lemma start_x_bound: "\<bar>fst (start u a tb) - fst (base u a)\<bar> \<le> 0.56"
proof -
  define A where "A = snd (smul 0.55 (base u a)) * 2 + (tb + aSeed a * 10.0) * 1.2"
  define B where "B = fst (smul 0.55 (base u a)) * 2 * 0.7 - (tb + aSeed a * 10.0) * 1.1"
  have e: "fst (start u a tb) - fst (base u a) = 0.28 * (sin A + sin B)"
    by (simp add: start_def Let_def vadd_def smul_def wobble_def A_def B_def)
  have "\<bar>sin A + sin B\<bar> \<le> \<bar>sin A\<bar> + \<bar>sin B\<bar>" by (rule abs_triangle_ineq)
  also have "\<dots> \<le> 1 + 1" by (intro add_mono) simp_all
  finally have "\<bar>sin A + sin B\<bar> \<le> 2" by simp
  then show ?thesis unfolding e by (simp add: abs_mult)
qed

lemma easeInOutCubic_range:
  assumes "0 \<le> l" and "l \<le> 1"
  shows "0 \<le> easeInOutCubic l \<and> easeInOutCubic l \<le> 1"
proof (cases "l < 0.5")
  case True
  have "l * l * l \<le> 0.5 * 0.5 * 0.5" using assms True by (intro mult_mono) simp_all
  moreover have "0 \<le> l * l * l" using assms by simp
  ultimately show ?thesis using True by (simp add: easeInOutCubic_def)
next
  case False
  define z where "z = - 2 * l + 2"
  have z: "0 \<le> z" "z \<le> 1" using False assms by (simp_all add: z_def)
  have p: "pow z 3 = z ^ 3" using z by (simp add: pow_nat)
  have "0 \<le> z ^ 3" "z ^ 3 \<le> 1" using z by (simp_all add: power_le_one)
  then have "0 \<le> 1 - pow z 3 / 2 \<and> 1 - pow z 3 / 2 \<le> 1" unfolding p by simp
  then show ?thesis using False unfolding easeInOutCubic_def z_def by simp
qed

lemma bezier_fst:
  "fst (bezier a b c d e) =
     (1 - e) * (1 - e) * (1 - e) * fst a + 3 * (1 - e) * (1 - e) * e * fst b
       + 3 * (1 - e) * e * e * fst c + e * e * e * fst d"
  by (simp add: bezier_def Let_def vadd_def smul_def)

lemma curve_x_le:
  assumes "fst cap \<le> fst (uRight u)" and "0 \<le> l" and "l \<le> 1"
  shows "fst (curve u a cap l) \<le> fst (uRight u)"
proof -
  define e where "e = easeInOutCubic l"
  define x where "x = fst cap"
  define d where "d = fst (uRight u)"
  define w where "w = smoothstep 0 0.08 l"
  define bend where "bend = hash (aSeed a * 321.7) * 2 - 1"
  define bz where "bz = fst (bezier cap (vadd (smul 0.5 (vadd cap (uRight u))) (0, 1.15 + 0.55 * bend))
        (vadd (smul 0.5 (vadd cap (uRight u))) (0, - 1.05 - 0.45 * bend)) (uRight u) e)"
  have e: "0 \<le> e" "e \<le> 1" using easeInOutCubic_range[OF assms(2,3)] by (simp_all add: e_def)
  have w: "0 \<le> w" "w \<le> 1" using smoothstep_range[of 0 "0.08" l] by (simp_all add: w_def)
  have xd: "x \<le> d" using assms(1) by (simp add: x_def d_def)
  have bz_eq: "bz = (1 - e) * (1 - e) * (1 - e) * x + 3 * (1 - e) * (1 - e) * e * (0.5 * (x + d))
       + 3 * (1 - e) * e * e * (0.5 * (x + d)) + e * e * e * d"
    unfolding bz_def bezier_fst by (simp add: vadd_def smul_def x_def d_def)
  have "d - bz = (d - x) * ((1 - e) * (1 - e) * (1 - e) + 1.5 * (1 - e) * (1 - e) * e
       + 1.5 * (1 - e) * e * e)"
    unfolding bz_eq by algebra
  moreover have "0 \<le> (1 - e) * (1 - e) * (1 - e) + 1.5 * (1 - e) * (1 - e) * e
       + 1.5 * (1 - e) * e * e"
    using e by (intro add_nonneg_nonneg mult_nonneg_nonneg) simp_all
  ultimately have "0 \<le> d - bz" using xd by simp
  then have bd: "bz \<le> d" by simp
  have c: "fst (curve u a cap l) = x * (1 - w) + bz * w"
    unfolding curve_def Let_def vmix_def mix_def bz_def e_def x_def w_def bend_def by simp
  have "x * (1 - w) \<le> d * (1 - w)" using xd w by (intro mult_right_mono) simp_all
  moreover have "bz * w \<le> d * w" using bd w by (intro mult_right_mono) simp_all
  ultimately have "x * (1 - w) + bz * w \<le> d * (1 - w) + d * w" by (rule add_mono)
  then show ?thesis unfolding c d_def[symmetric] by (simp add: algebra_simps)
qed

lemma commit_range: "\<exists>l. commit a tS = Inr l \<and> 0 \<le> l \<and> l \<le> 1"
  unfolding commit_value using clamp01_range by simp

lemma capture_x_le:
  assumes "fst st < fst (uRight u)" and "0 \<le> uSuckWide u" and "0.06 * uSuckWide u \<le> 1"
    and "0 \<le> tS" and "tS \<le> 1"
  shows "\<exists>cap. capture u tS st = Inr cap \<and> fst cap \<le> fst (uRight u)"
proof -
  define k where "k = 0.06 * uSuckWide u * smooth01 tS"
  have s: "0 \<le> smooth01 tS" "smooth01 tS \<le> 1" using smooth01_range[OF assms(4,5)] by simp_all
  have "0.06 * uSuckWide u * smooth01 tS \<le> 1 * 1"
    using s assms(2,3) by (intro mult_mono) simp_all
  then have k: "k \<le> 1" by (simp add: k_def)
  have ne: "st \<noteq> uRight u" using assms(1) by auto
  have "fst (vadd st (smul k (vsub (uRight u) st))) = fst st + k * (fst (uRight u) - fst st)"
    by (simp add: vadd_def smul_def vsub_def)
  moreover have "k * (fst (uRight u) - fst st) \<le> 1 * (fst (uRight u) - fst st)"
    using k assms(1) by (intro mult_right_mono) simp_all
  ultimately have "fst (vadd st (smul k (vsub (uRight u) st))) \<le> fst (uRight u)" by simp
  then show ?thesis unfolding capture_Inr[OF ne] k_def by simp
qed

lemma spiral_defined:
  assumes "fst p \<le> fst (uRight u)"
  shows "\<exists>p'. spiral u a tS l p = Inr p'"
proof -
  have "p \<noteq> vadd (uRight u) (0.0001, - 0.0001)"
    using assms by (auto simp add: vadd_def)
  then have "vadd (- snd (vsub (uRight u) p), fst (vsub (uRight u) p)) (0.0001, 0.0001) \<noteq> (0, 0)"
    using tangent_nonzero[of "uRight u" p] by blast
  from normalize_Inr[OF this] show ?thesis unfolding spiral_def Let_def by simp
qed

lemma suck_defined:
  assumes "uSuckT u \<noteq> 0" and "0 \<le> uSuckWide u" and "0.06 * uSuckWide u \<le> 1"
    and "fst (start u a (uTime u - (ph - driftEnd u) / max 0.001 (uRate u))) < fst (uRight u)"
  shows "\<exists>d. suck u a ph = Inr d"
proof -
  define tS where "tS = clamp01 ((ph - driftEnd u) / uSuckT u)"
  define tB where "tB = uTime u - (ph - driftEnd u) / max 0.001 (uRate u)"
  have tS: "0 \<le> tS" "tS \<le> 1" using clamp01_range by (simp_all add: tS_def)
  from commit_range[of a tS] obtain l where l: "commit a tS = Inr l" "0 \<le> l" "l \<le> 1" by blast
  from capture_x_le[OF assms(4) assms(2,3) tS] obtain cap where
    cap: "capture u tS (start u a tB) = Inr cap" "fst cap \<le> fst (uRight u)"
    unfolding tB_def by blast
  from spiral_defined[OF curve_x_le[OF cap(2) l(2,3)]] obtain p' where
    p': "spiral u a tS l (curve u a cap l) = Inr p'" by blast
  have f: "fdiv (ph - driftEnd u) (max 0.001 (uRate u)) = Inr ((ph - driftEnd u) / max 0.001 (uRate u))"
    by (rule fdiv_clamped) simp
  have "suck u a ph = Inr (p', fade u l p')"
    unfolding suck_def Let_def fdiv_Inr[OF assms(1)] f bindE_simps
      tS_def[symmetric] tB_def[symmetric] l(1) cap(1) p' ..
  then show ?thesis by blast
qed


lemma glsl_mod_shift:
  assumes "0 < c" and "0 \<le> r" and "r < c"
  shows "glsl_mod (c * of_int k + r) c = Inr r"
proof -
  have "(c * of_int k + r) / c = of_int k + r / c" using assms(1) by (simp add: field_simps)
  moreover have "\<lfloor>r / c\<rfloor> = 0" using assms by (simp add: floor_eq_iff)
  ultimately have "\<lfloor>(c * of_int k + r) / c\<rfloor> = k" by simp
  then show ?thesis using assms(1) by (simp add: glsl_mod_def)
qed

lemma boundary_time:
  assumes "0.001 \<le> uRate u" and "0 \<le> driftEnd u" and "driftEnd u < cycle u"
    and "phase_value u = Inr ph"
  shows "phase_value (update (uTime u - (ph - driftEnd u) / max 0.001 (uRate u)) u)
      = Inr (driftEnd u)"
proof -
  define k where "k = \<lfloor>uTime u * uRate u / cycle u\<rfloor>"
  have c: "0 < cycle u" using assms(2,3) by simp
  have r: "uRate u \<noteq> 0" "max 0.001 (uRate u) = uRate u" using assms(1) by (simp_all add: max_def)
  have ph: "ph = uTime u * uRate u - cycle u * of_int k"
    using assms(4) c by (auto simp add: phase_value_def glsl_mod_def k_def Let_def)
  have "(uTime u - (ph - driftEnd u) / uRate u) * uRate u = cycle u * of_int k + driftEnd u"
    using r(1) by (simp add: ph field_simps)
  then show ?thesis
    unfolding r(2) using glsl_mod_shift[OF c assms(2,3), of k]
    by (simp add: phase_value_def)
qed

subsection \<open>Dot 0 of the loaded view is defined at every clock value\<close>

lemma loaded_base_0: "base (setView 16 10 (createPortalPulseFX 16 10)) (particle 0) = (- 3.7175, - 0.3575)"
  by (simp add: base_def Let_def dot_0_locals dot_0_fields loaded_fields vadd_def smul_def)

lemma loaded_start_left:
  "fst (start (setView 16 10 (createPortalPulseFX 16 10)) (particle 0) tb)
     < fst (uRight (setView 16 10 (createPortalPulseFX 16 10)))"
proof -
  let ?u = "setView 16 10 (createPortalPulseFX 16 10)"
  have "fst (start ?u (particle 0) tb) - fst (base ?u (particle 0)) \<le> 0.56"
    using start_x_bound[of ?u "particle 0" tb] by (rule abs_le_D1)
  then show ?thesis by (simp add: loaded_base_0 loaded_fields)
qed

lemma loaded_dot_0_defined:
  "\<exists>v. main (update t (setView 16 10 (createPortalPulseFX 16 10))) (particle 0) = Inr v"
proof -
  let ?u = "update t (setView 16 10 (createPortalPulseFX 16 10))"
  from glsl_mod_range[of "cycle ?u" "uTime ?u * uRate ?u"] obtain ph where
    ph: "phase_value ?u = Inr ph" "0 \<le> ph"
    by (auto simp add: phase_value_def loaded_cycle)
  show ?thesis
  proof (cases "select_phase ?u ph = SUCK")
    case False
    with main_cases[OF ph, of "particle 0"] show ?thesis by blast
  next
    case True
    have "\<exists>d. suck ?u (particle 0) ph = Inr d"
    proof (rule suck_defined)
      show "uSuckT ?u \<noteq> 0" "0 \<le> uSuckWide ?u" "0.06 * uSuckWide ?u \<le> 1"
        by (simp_all add: loaded_fields)
      show "fst (start ?u (particle 0) (uTime ?u - (ph - driftEnd ?u) / max 0.001 (uRate ?u)))
          < fst (uRight ?u)"
        using loaded_start_left by simp
    qed
    then obtain d where "suck ?u (particle 0) ph = Inr d" by blast
    then have "shade ?u (particle 0) ph = Inr d" using True by (simp add: shade_def)
    then show ?thesis using ph(1) by (cases d) (simp add: main_def Let_def)
  qed
qed

lemma vlength_ge_fst: "\<bar>fst p\<bar> \<le> vlength p"
proof -
  have "\<bar>fst p\<bar> = sqrt (fst p * fst p)" by simp
  also have "\<dots> \<le> sqrt (fst p * fst p + snd p * snd p)" by (rule real_sqrt_le_mono) simp
  finally show ?thesis by (simp add: vlength_def)
qed

lemma loaded_start_far:
  "0.85 \<le> vlength (vsub (start (setView 16 10 (createPortalPulseFX 16 10)) (particle 0) tb)
      (uRight (setView 16 10 (createPortalPulseFX 16 10))))"
proof -
  let ?u = "setView 16 10 (createPortalPulseFX 16 10)"
  let ?d = "vsub (start ?u (particle 0) tb) (uRight ?u)"
  have "fst (start ?u (particle 0) tb) - fst (base ?u (particle 0)) \<le> 0.56"
    using start_x_bound[of ?u "particle 0" tb] by (rule abs_le_D1)
  then have "fst ?d \<le> - 0.85" by (simp add: vsub_def loaded_base_0 loaded_fields)
  then have "0.85 \<le> \<bar>fst ?d\<bar>" by simp
  with vlength_ge_fst[of ?d] show ?thesis by linarith
qed

lemma suck_size_floor:
  assumes "main u a = Inr v" and "phase_value u = Inr ph" and "select_phase u ph = SUCK"
  shows "0.20 \<le> sizeMul v"
proof -
  from main_Inr[OF assms(1)] assms(2) obtain p al sm where
    s: "shade u a ph = Inr (p, al, sm)" and v: "sizeMul v = sm" by auto
  from s assms(3) have "suck u a ph = Inr (p, al, sm)" by (simp add: shade_def)
  from suck_Inr[OF this] obtain l where "(al, sm) = fade u l p" by auto
  then have "sm = snd (fade u l p)" by (metis snd_conv)
  with fade_size_range[of u l p] v show ?thesis by simp
qed

section \<open>Phase selection\<close>

text \<open>
  Claim C3. For every dot and every clock value, with durations that are not negative and a
  positive cycle, the phase value \<open>((uTime * uRate) mod cycle)\<close> is defined, lies in
  \<open>[0, cycle)\<close>, and the branch chosen by the \<^verbatim>\<open>if / else if\<close> chain is BURST, DRIFT,
  SUCK or HOLD exactly when the phase value lies in \<open>[0, burstEnd)\<close>,
  \<open>[burstEnd, driftEnd)\<close>, \<open>[driftEnd, suckEnd)\<close> or \<open>[suckEnd, cycle)\<close>; the four
  intervals cover \<open>[0, cycle)\<close> and are pairwise disjoint.
\<close>

theorem phase_partition:
  assumes "0 \<le> uBurstT u" and "0 \<le> uDriftT u" and "0 \<le> uSuckT u" and "0 \<le> uHoldT u"
    and "0 < cycle u"
  shows "\<exists>ph. phase_value u = Inr ph \<and> ph \<in> {0 ..< cycle u}
     \<and> (select_phase u ph = BURST) = (ph \<in> {0 ..< burstEnd u})
     \<and> (select_phase u ph = DRIFT) = (ph \<in> {burstEnd u ..< driftEnd u})
     \<and> (select_phase u ph = SUCK) = (ph \<in> {driftEnd u ..< suckEnd u})
     \<and> (select_phase u ph = HOLD) = (ph \<in> {suckEnd u ..< cycle u})
     \<and> {0 ..< cycle u} = {0 ..< burstEnd u} \<union> {burstEnd u ..< driftEnd u}
          \<union> {driftEnd u ..< suckEnd u} \<union> {suckEnd u ..< cycle u}
     \<and> {0 ..< burstEnd u} \<inter> {burstEnd u ..< driftEnd u} = {}
     \<and> {0 ..< burstEnd u} \<inter> {driftEnd u ..< suckEnd u} = {}
     \<and> {0 ..< burstEnd u} \<inter> {suckEnd u ..< cycle u} = {}
     \<and> {burstEnd u ..< driftEnd u} \<inter> {driftEnd u ..< suckEnd u} = {}
     \<and> {burstEnd u ..< driftEnd u} \<inter> {suckEnd u ..< cycle u} = {}
     \<and> {driftEnd u ..< suckEnd u} \<inter> {suckEnd u ..< cycle u} = {}"
proof -
  from glsl_mod_range[OF assms(5), of "uTime u * uRate u"] obtain ph where
    ph: "phase_value u = Inr ph" and r: "0 \<le> ph" "ph < cycle u"
    by (auto simp add: phase_value_def)
  have o: "0 \<le> burstEnd u" "burstEnd u \<le> driftEnd u" "driftEnd u \<le> suckEnd u"
      "suckEnd u \<le> cycle u"
    using assms by (simp_all add: burstEnd_def driftEnd_def suckEnd_def cycle_def)
  have sel: "(select_phase u ph = BURST) = (ph \<in> {0 ..< burstEnd u})"
      "(select_phase u ph = DRIFT) = (ph \<in> {burstEnd u ..< driftEnd u})"
      "(select_phase u ph = SUCK) = (ph \<in> {driftEnd u ..< suckEnd u})"
      "(select_phase u ph = HOLD) = (ph \<in> {suckEnd u ..< cycle u})"
    using r o by (auto simp add: select_phase_def)
  have un: "{0 ..< cycle u} = {0 ..< burstEnd u} \<union> {burstEnd u ..< driftEnd u}
          \<union> {driftEnd u ..< suckEnd u} \<union> {suckEnd u ..< cycle u}"
    using o by auto
  have dj: "{0 ..< burstEnd u} \<inter> {burstEnd u ..< driftEnd u} = {}"
      "{0 ..< burstEnd u} \<inter> {driftEnd u ..< suckEnd u} = {}"
      "{0 ..< burstEnd u} \<inter> {suckEnd u ..< cycle u} = {}"
      "{burstEnd u ..< driftEnd u} \<inter> {driftEnd u ..< suckEnd u} = {}"
      "{burstEnd u ..< driftEnd u} \<inter> {suckEnd u ..< cycle u} = {}"
      "{driftEnd u ..< suckEnd u} \<inter> {suckEnd u ..< cycle u} = {}"
    using o by auto
  from r have "ph \<in> {0 ..< cycle u}" by simp
  with ph sel un dj show ?thesis by blast
qed

text \<open>At clock value 3 the loaded 16 by 10 view is in SUCK, which spans \<open>[1.85, 6.05)\<close>.\<close>

theorem phase_partition_witness:
  "phase_value (update 3 (setView 16 10 (createPortalPulseFX 16 10))) = Inr 3
   \<and> (3::real) \<in> {0 ..< 6.5}
   \<and> select_phase (update 3 (setView 16 10 (createPortalPulseFX 16 10))) 3 = SUCK
   \<and> (3::real) \<in> {1.85 ..< 6.05}"
proof -
  let ?u = "update 3 (setView 16 10 (createPortalPulseFX 16 10))"
  have ph: "phase_value ?u = Inr 3"
    by (simp add: phase_value_def loaded_fields loaded_cycle glsl_mod_small)
  from phase_partition[of ?u] ph show ?thesis
    by (simp add: loaded_fields loaded_cycle driftEnd_def suckEnd_def)
qed

section \<open>Divisions by a duration\<close>




section \<open>The resize handler\<close>

text \<open>
  Claim C8. The resize handler is idempotent: for every width and height and every table of
  uniforms, a second call of \<^verbatim>\<open>setView\<close> with the same arguments leaves the whole table, and
  so the resolution, both anchors, the portal radius, the burst radius and the band width,
  as the first call left it.
\<close>

theorem setView_idempotent: "setView w h (setView w h u) = setView w h u"
  by (simp add: setView_def)

text \<open>
  Claim C9. After a resize to any width and height the left anchor is \<open>(-0.38 * w, 0)\<close>, the
  right anchor is \<open>(0.38 * w, 0)\<close> and the portal radius is \<open>min w h * 0.22\<close>, whatever the
  table held before; resizing from \<open>(800, 600)\<close> to \<open>(1600, 1200)\<close> gives the left anchor the
  abscissa \<open>-0.38 * 1600\<close> and the portal the radius \<open>min 1600 1200 * 0.22\<close>.
\<close>

theorem setView_geometry:
  "uLeft (setView w h u) = (- 0.38 * w, 0)
   \<and> uRight (setView w h u) = (0.38 * w, 0)
   \<and> uPortalR (setView w h u) = min w h * 0.22
   \<and> uRes (setView w h u) = (w, h)
   \<and> fst (uLeft (setView 1600 1200 (setView 800 600 u))) = - 0.38 * 1600
   \<and> uPortalR (setView 1600 1200 (setView 800 600 u)) = min 1600 1200 * 0.22"
  by (simp add: setView_def min.commute)


section \<open>Bounds of the opacity and the size multiplier\<close>

text \<open>
  Claim C4. Whenever \<^verbatim>\<open>main\<close> yields a vertex, in whichever phase branch, its opacity
  \<^verbatim>\<open>alpha\<close> and its size multiplier \<^verbatim>\<open>sizeMul\<close> lie between 0 and 1.
\<close>

theorem alpha_size_bounds:
  assumes "main u a = Inr v"
  shows "0 \<le> vAlpha v \<and> vAlpha v \<le> 1 \<and> 0 \<le> sizeMul v \<and> sizeMul v \<le> 1"
proof -
  from main_Inr[OF assms] obtain ph p al sm where
    s: "shade u a ph = Inr (p, al, sm)" and v: "vAlpha v = al" "sizeMul v = sm" by blast
  from shade_range[OF s] v show ?thesis by simp
qed

text \<open>Dot 0 in DRIFT, at clock value 1 in the loaded 16 by 10 view.\<close>

theorem alpha_size_bounds_witness:
  "\<exists>v. main (update 1 (setView 16 10 (createPortalPulseFX 16 10))) (particle 0) = Inr v
      \<and> 0 \<le> vAlpha v \<and> vAlpha v \<le> 1 \<and> 0 \<le> sizeMul v \<and> sizeMul v \<le> 1"
proof -
  let ?u = "update 1 (setView 16 10 (createPortalPulseFX 16 10))"
  have ph: "phase_value ?u = Inr 1"
    by (simp add: phase_value_def loaded_fields loaded_cycle glsl_mod_small)
  have sel: "select_phase ?u 1 = DRIFT"
    by (simp add: select_phase_def burstEnd_def driftEnd_def loaded_fields)
  from main_cases[OF ph, of "particle 0"] sel obtain v where
    v: "main ?u (particle 0) = Inr v" by auto
  from alpha_size_bounds[OF v] v show ?thesis by blast
qed

section \<open>The seams between the phases\<close>




section \<open>Reproducible frames\<close>


section \<open>The first frame and the middle of HOLD\<close>

text \<open>
  Claim C6, as amended. At clock value 0, with a positive burst duration and a non-zero
  cycle, every dot is in BURST with opacity 1 and size multiplier 1, and its position is the
  left anchor plus its spawn offset \<open>rad0 * dir\<close> plus a tenth of its scatter offset: each
  coordinate is within \<open>0.035 * |uPortalR| + 0.12\<close> of the left anchor. The position is not
  within the spawn radius alone.
\<close>

theorem time_zero:
  assumes "0 < uBurstT u" and "cycle u \<noteq> 0"
  shows "phase_value (update 0 u) = Inr 0 \<and> select_phase u 0 = BURST
    \<and> (\<exists>v. main (update 0 u) a = Inr v \<and> vAlpha v = 1 \<and> sizeMul v = 1
         \<and> position v = vadd (vadd (uLeft u) (smul (rad0 u a) (dir a))) (smul 0.10 (scatter a))
         \<and> \<bar>fst (position v) - fst (uLeft u)\<bar> \<le> 0.035 * \<bar>uPortalR u\<bar> + 0.12
         \<and> \<bar>snd (position v) - snd (uLeft u)\<bar> \<le> 0.035 * \<bar>uPortalR u\<bar> + 0.12)"
proof -
  have ph: "phase_value (update 0 u) = Inr 0"
    using assms(2) by (simp add: phase_value_def glsl_mod_0)
  have sel: "select_phase u 0 = BURST"
    using assms(1) by (simp add: select_phase_def burstEnd_def)
  have b: "burst (update 0 u) a 0 = Inr (vadd (packed u a) (smul 0.10 (scatter a)), 1, 1)"
    using assms(1) burst_at_0[of "update 0 u" a] by simp
  have sh: "shade (update 0 u) a 0 = Inr (vadd (packed u a) (smul 0.10 (scatter a)), 1, 1)"
    using sel b by (simp add: shade_def)
  have m: "main (update 0 u) a =
      Inr \<lparr> position = vadd (packed u a) (smul 0.10 (scatter a)), vAlpha = 1, sizeMul = 1,
            gl_PointSize = aSize a * uDotGain u * (0.92 + 0.18 * sin (aSeed a * 12)) * 1,
            vHueMix = aHueMix a \<rparr>"
    by (simp add: main_def ph sh bindE_def Let_def)
  show ?thesis using ph sel m spawn_offset_bound[of u a] by (simp add: packed_def)
qed

text \<open>The amended statement at dot 0 of the loaded 16 by 10 view.\<close>

theorem time_zero_witness:
  "\<exists>v. main (update 0 (setView 16 10 (createPortalPulseFX 16 10))) (particle 0) = Inr v
      \<and> vAlpha v = 1 \<and> sizeMul v = 1
      \<and> \<bar>fst (position v) - (- 6.08)\<bar> \<le> 0.197 \<and> \<bar>snd (position v) - 0\<bar> \<le> 0.197"
  using time_zero[of "setView 16 10 (createPortalPulseFX 16 10)" "particle 0"]
  by (simp add: loaded_fields loaded_cycle) blast

text \<open>
  Claim C6 as stated fails at dot 0 of the loaded 16 by 10 view: its spawn offset is zero,
  yet at clock value 0 it sits at \<open>(-6.135, -0.055)\<close>, farther from the left anchor
  \<open>(-6.08, 0)\<close> than the largest spawn radius \<open>0.035 * uPortalR = 0.077\<close>.
\<close>

theorem time_zero_offset:
  "main (update 0 (setView 16 10 (createPortalPulseFX 16 10))) (particle 0) =
     Inr \<lparr> position = (- 6.135, - 0.055), vAlpha = 1, sizeMul = 1, gl_PointSize = 7.406,
           vHueMix = 0 \<rparr>
   \<and> rad0 (setView 16 10 (createPortalPulseFX 16 10)) (particle 0) = 0
   \<and> 0.035 * uPortalR (setView 16 10 (createPortalPulseFX 16 10))
       < vlength (vsub (- 6.135, - 0.055) (uLeft (setView 16 10 (createPortalPulseFX 16 10))))"
proof -
  let ?u = "setView 16 10 (createPortalPulseFX 16 10)"
  have ph: "phase_value (update 0 ?u) = Inr 0"
    by (simp add: phase_value_def glsl_mod_0 loaded_cycle)
  have sel: "select_phase ?u 0 = BURST"
    by (simp add: select_phase_def burstEnd_def loaded_fields)
  have b: "burst (update 0 ?u) (particle 0) 0 = Inr ((- 6.135, - 0.055), 1, 1)"
    by (simp add: burst_at_0 loaded_fields dot_0_locals vadd_def smul_def)
  have m: "main (update 0 ?u) (particle 0) =
     Inr \<lparr> position = (- 6.135, - 0.055), vAlpha = 1, sizeMul = 1, gl_PointSize = 7.406,
           vHueMix = 0 \<rparr>"
    by (simp add: main_def ph shade_def sel b bindE_def Let_def loaded_fields dot_0_fields)
  have "(0.077::real)\<^sup>2 < 0.00605" by (simp add: power2_eq_square)
  then have "(0.077::real) < sqrt 0.00605" by (rule real_less_rsqrt)
  moreover have "vlength (vsub (- 6.135, - 0.055) (uLeft ?u)) = sqrt 0.00605"
    by (simp add: vlength_def vsub_def loaded_fields)
  ultimately show ?thesis using m by (simp add: dot_0_locals loaded_fields)
qed

text \<open>
  Claim C7. With the rate 1 of the source and durations that are not negative, the hold
  duration positive, at the clock value \<open>uBurstT + uDriftT + uSuckT + uHoldT * 0.5\<close> every dot
  has its position exactly at the right anchor, opacity 0 and size multiplier 0 (and so
  point size 0).
\<close>

theorem mid_hold:
  assumes "uRate u = 1" and "0 \<le> uBurstT u" and "0 \<le> uDriftT u" and "0 \<le> uSuckT u"
    and "0 < uHoldT u"
  shows "main (update (uBurstT u + uDriftT u + uSuckT u + uHoldT u * 0.5) u) a =
      Inr \<lparr> position = uRight u, vAlpha = 0, sizeMul = 0, gl_PointSize = 0,
            vHueMix = aHueMix a \<rparr>"
proof -
  define t where "t = uBurstT u + uDriftT u + uSuckT u + uHoldT u * 0.5"
  have r: "0 \<le> t" "t < cycle u" using assms by (simp_all add: t_def cycle_def)
  have ph: "phase_value (update t u) = Inr t"
    using assms(1) glsl_mod_small[OF r] by (simp add: phase_value_def)
  have sel: "select_phase u t = HOLD"
    using assms by (simp add: select_phase_def burstEnd_def driftEnd_def suckEnd_def t_def)
  have sh: "shade (update t u) a t = Inr (uRight u, 0, 0)"
    using sel by (simp add: shade_def hold_def)
  show ?thesis unfolding t_def[symmetric]
    by (simp add: main_def ph sh bindE_def Let_def)
qed

text \<open>The middle of HOLD in the loaded 16 by 10 view is the clock value 6.275.\<close>

theorem mid_hold_witness:
  "main (update 6.275 (setView 16 10 (createPortalPulseFX 16 10))) (particle 0) =
      Inr \<lparr> position = (6.08, 0), vAlpha = 0, sizeMul = 0, gl_PointSize = 0, vHueMix = 0 \<rparr>"
  using mid_hold[of "setView 16 10 (createPortalPulseFX 16 10)" "particle 0"]
  by (simp add: loaded_fields dot_0_fields)

end
